theory Spec2Isabelle
  imports Main "HOL-Library.Word"
begin

unbundle bit_operations_syntax

section \<open>Go values\<close>

text \<open>
  Go's \<open>int\<close> is modelled as a 64-bit word (the size it has on the 64-bit platforms the
  program is built for); \<open>sint\<close> reads its signed value. A \<open>byte\<close> is an 8-bit word and a
  Go \<open>string\<close> is a list of bytes, written as an Isabelle \<open>string\<close> (a \<open>char\<close> is one byte).
\<close>

type_synonym go_int = "64 word"
type_synonym byte = "8 word"
type_synonym uint32 = "32 word"

text \<open>The conversion \<open>[]byte(s)\<close>: the bytes of the string, in order.\<close>

definition bytes_of_string :: "string \<Rightarrow> byte list" where
  "bytes_of_string s = map of_char s"

section \<open>Framing protocol (internal/protocol/blink)\<close>

text \<open>\<open>FRAMES_KEEPALIVE\<close>: the keep-alive ping frame.\<close>

definition FRAMES_KEEPALIVE :: "byte list" where
  "FRAMES_KEEPALIVE =
    [0x12, 0x00, 0x00, 0x03, 0xe8, 0x00, 0x00, 0x00,
     0x18, 0x00, 0x00, 0x00, 0x00, 0x00, 0x00, 0x00,
     0x00, 0x00, 0x00, 0x00, 0x00, 0x00, 0x00, 0x00,
     0x00, 0x00, 0x00, 0x00, 0x00, 0x00, 0x01, 0x00,
     0x00]"

text \<open>
  \<open>binary.BigEndian.PutUint32(b, v)\<close> on a 4-byte slice:
  \<open>b[0] = byte(v >> 24); b[1] = byte(v >> 16); b[2] = byte(v >> 8); b[3] = byte(v)\<close>.
\<close>

definition PutUint32 :: "uint32 \<Rightarrow> byte list" where
  "PutUint32 v =
    [ucast (drop_bit 24 v), ucast (drop_bit 16 v), ucast (drop_bit 8 v), ucast v]"

definition frame1 :: "byte list" where
  "frame1 =
    [0x00, 0x00, 0x00, 0x28, 0x00, 0x00, 0x00, 0x00,
     0x00, 0x00, 0x00, 0x00, 0x00, 0x00, 0x00, 0x00,
     0x00, 0x00, 0x00, 0x00, 0x00, 0x00, 0x00, 0x00]"

definition frame3 :: "byte list" where
  "frame3 =
    [0x01, 0x08, 0x00, 0x00, 0x00, 0x00, 0x00, 0x00,
     0x00, 0x00, 0x00, 0x00, 0x00, 0x00, 0x00, 0x00,
     0x00, 0x00, 0x00, 0x00, 0x00, 0x00, 0x00, 0x00,
     0x00, 0x00, 0x00, 0x00, 0x00, 0x00, 0x00, 0x00,
     0x00, 0x00, 0x00, 0x00, 0x00, 0x00, 0x00, 0x00,
     0x00, 0x00, 0x00, 0x00, 0x00, 0x00, 0x00, 0x00,
     0x00, 0x00, 0x00, 0x00, 0x00, 0x00, 0x00, 0x00,
     0x00, 0x00, 0x00, 0x00, 0x00, 0x00, 0x00, 0x00,
     0x00, 0x00, 0x00, 0x00, 0x00, 0x00, 0x00, 0x00,
     0x00, 0x10]"

definition frame5 :: "byte list" where
  "frame5 =
    [0x00, 0x00, 0x00, 0x01, 0x0a, 0x00, 0x00, 0x00,
     0x00, 0x00, 0x00, 0x00, 0x00]"

text \<open>
  \<open>GenerateAuthFrames(connectionId, clientId)\<close>. The client id is converted with
  \<open>uint32(clientId)\<close>, which keeps the low 32 bits of the \<open>int\<close>.
\<close>

definition GenerateAuthFrames :: "string \<Rightarrow> go_int \<Rightarrow> byte list list" where
  "GenerateAuthFrames connectionId clientId =
    (let clientIDBytes = PutUint32 (ucast clientId);
         frame2 = [clientIDBytes ! 0, clientIDBytes ! 1, clientIDBytes ! 2, clientIDBytes ! 3];
         frame4 = bytes_of_string connectionId
     in [frame1, frame2, frame3, frame4, frame5])"

text \<open>
  The value a sequence of bytes denotes when read as a big-endian unsigned number: the
  reference the encoding of the client id is compared with.
\<close>

definition be_value :: "byte list \<Rightarrow> nat" where
  "be_value bs = foldl (\<lambda>acc b. acc * 256 + unat b) 0 bs"

section \<open>Errors\<close>

text \<open>
  Every error the program builds with \<open>fmt.Errorf\<close> is a constructor that carries the
  arguments of its message; \<open>%w\<close> wrapping carries the wrapped error. An error handed
  back by a library call (\<open>url.Parse\<close>, \<open>http.NewRequest\<close>, \<open>client.Do\<close>,
  \<open>io.ReadAll\<close>, \<open>json.Unmarshal\<close>, \<open>strconv.Atoi\<close>, \<open>tls.Dial\<close>, the connection)
  is \<open>External\<close> with its message.
  \<^item> \<open>UnknownDeviceType t\<close>: "cannot build path for unknown device type: %s"
  \<^item> \<open>InvalidHost\<close>: "invalid host"
  \<^item> \<open>UnexpectedPort p\<close>: "unexpected port %s. Expecting 443"
  \<^item> \<open>InvalidPath\<close>: "invalid path"
  \<^item> \<open>InvalidConnectionID\<close>: "invalid connection ID"
  \<^item> \<open>InvalidClientID\<close>: "invalid client ID"
  \<^item> \<open>PollingURLError e\<close>: "error creating polling URL: %w"
  \<^item> \<open>PollHttpStatus c\<close>: "error polling command. HTTP Status Code %d"
  \<^item> \<open>CommandComplete\<close>: "command marked as complete. Cannot poll further"
  \<^item> \<open>LiveviewPathError e\<close>: "error getting liveview path: %w"
  \<^item> \<open>ApiHttpStatus c\<close>: "error from API. HTTP Status Code %d"
  \<^item> \<open>LiveviewCommandError\<close>: "error sending liveview command: %v"
  \<^item> \<open>StopHttpStatus c\<close>: "cannot stop command. HTTP Status Code %d"
  \<^item> \<open>StopApiCode c m\<close>: "cannot stop command. API Code %d with message %s"
  \<^item> \<open>AlreadyConnected\<close>: "error during connect: client is already connected"
  \<^item> \<open>ConnectError e\<close>: "error during connect: %w"
  \<^item> \<open>ConnectParseError e\<close>: "error during connect: parsing connection string: %w"
  \<^item> \<open>StreamInitError e\<close>: "unable to initialize stream: %w"
  \<^item> \<open>OnConnectError e\<close>: "error on connect: %w"
  \<^item> \<open>ReadDeadlineError e\<close>: "error setting read deadline: %w"
  \<^item> \<open>ClosedByPeer e\<close>: "connection closed gracefully by peer: %w"
  \<^item> \<open>ResetByPeer e\<close>: "connection reset by peer: %w"
  \<^item> \<open>ReadTimeoutError e\<close>: "read timeout: %w"
  \<^item> \<open>ReadError e\<close>: "error reading from server: %w"
  \<^item> \<open>WriterError e\<close>: "error writing to writer: %w"
  \<^item> \<open>KeepAliveError e\<close>: "error sending keep-alive: %w"
  \<^item> \<open>StreamError e\<close>: "stream error: %w"
\<close>

datatype error =
    External string
  | UnknownDeviceType string
  | InvalidHost
  | UnexpectedPort string
  | InvalidPath
  | InvalidConnectionID
  | InvalidClientID
  | PollingURLError error
  | PollHttpStatus go_int
  | CommandComplete
  | LiveviewPathError error
  | ApiHttpStatus go_int
  | LiveviewCommandError
  | StopHttpStatus go_int
  | StopApiCode go_int string
  | AlreadyConnected
  | ConnectError error
  | ConnectParseError error
  | StreamInitError error
  | OnConnectError error
  | ReadDeadlineError error
  | ClosedByPeer error
  | ResetByPeer error
  | ReadTimeoutError error
  | ReadError error
  | WriterError error
  | KeepAliveError error
  | StreamError error

text \<open>
  A call either returns or panics. The only panic the modelled code can raise is Go's
  nil pointer dereference, and \<open>time.NewTicker\<close>'s panic on a non-positive interval.
\<close>

datatype panic = NilPointerDereference | NonPositiveTickerInterval

datatype 'a outcome = Returns 'a | Panics panic

section \<open>Library functions the adapter calls\<close>

text \<open>\<open>%d\<close> of an integer: decimal digits, with a minus sign when negative.\<close>

function digits :: "int \<Rightarrow> string" where
  "digits n =
     (if n < 10 then [char_of (48 + n)]
      else digits (n div 10) @ [char_of (48 + n mod 10)])"
  by pat_completeness auto
termination
  by (relation "measure nat") auto

declare digits.simps [simp del]

definition format_int :: "int \<Rightarrow> string" where
  "format_int i = (if i < 0 then CHR ''-'' # digits (- i) else digits i)"

text \<open>
  \<open>fmt.Sprintf\<close>, for the part the program uses: the verbs \<open>%s\<close> with a string argument
  and \<open>%d\<close> with an \<open>int\<close> argument, consumed left to right. Everything else in the
  format is copied. (Other verbs, mismatched or missing arguments, which Go renders as
  \<open>%!verb(...)\<close>, occur in no call of the program and are copied unchanged here.)
\<close>

datatype fmt_arg = S string | D go_int

fun Sprintf :: "string \<Rightarrow> fmt_arg list \<Rightarrow> string" where
  "Sprintf (c # d # fs) (a # as) =
     (case a of
        S s \<Rightarrow>
          if c = CHR ''%'' \<and> d = CHR ''s'' then s @ Sprintf fs as
          else c # Sprintf (d # fs) (a # as)
      | D n \<Rightarrow>
          if c = CHR ''%'' \<and> d = CHR ''d'' then format_int (sint n) @ Sprintf fs as
          else c # Sprintf (d # fs) (a # as))"
| "Sprintf fs as = fs"

text \<open>
  \<open>strings.Split(s, sep)\<close> for a one-byte separator: the pieces between the
  separators, in order; the empty string gives one empty piece.
\<close>

fun Split :: "string \<Rightarrow> char \<Rightarrow> string list" where
  "Split [] sep = [[]]"
| "Split (c # cs) sep =
     (if c = sep then [] # Split cs sep
      else (case Split cs sep of [] \<Rightarrow> [[c]] | p # ps \<Rightarrow> (c # p) # ps))"

text \<open>
  \<open>strconv.Atoi(s)\<close>: an optional sign followed by one or more decimal digits. A
  syntax error returns 0 and an error; a value outside the 64-bit range returns the
  nearest bound and an error.
\<close>

definition is_digit :: "char \<Rightarrow> bool" where
  "is_digit c = (48 \<le> (of_char c :: int) \<and> (of_char c :: int) \<le> 57)"

definition decimal_value :: "string \<Rightarrow> int" where
  "decimal_value ds = foldl (\<lambda>n c. n * 10 + (of_char c - 48)) 0 ds"

definition Atoi :: "string \<Rightarrow> go_int \<times> error option" where
  "Atoi s =
    (let neg = (s \<noteq> [] \<and> hd s = CHR ''-'');
         ds = (if s \<noteq> [] \<and> (hd s = CHR ''-'' \<or> hd s = CHR ''+'') then tl s else s)
     in if ds = [] \<or> \<not> list_all is_digit ds
        then (0, Some (External ''strconv.Atoi: invalid syntax''))
        else let n = decimal_value ds
             in if neg then
                  (if n > 2 ^ 63
                   then (word_of_int (- (2 ^ 63)),
                         Some (External ''strconv.Atoi: value out of range''))
                   else (word_of_int (- n), None))
                else
                  (if n \<ge> 2 ^ 63
                   then (word_of_int (2 ^ 63 - 1),
                         Some (External ''strconv.Atoi: value out of range''))
                   else (word_of_int n, None)))"

text \<open>
  What the program reads of a parsed \<open>url.URL\<close>: \<open>Hostname()\<close>, \<open>Port()\<close>, \<open>Path\<close> and
  \<open>Query()\<close>, a \<open>url.Values\<close> (a map from keys to lists of values). \<open>Values.Get\<close> is
  the first value of the key, or the empty string.
\<close>

record URL =
  Hostname :: string
  Port :: string
  Path :: string
  Query :: "string \<rightharpoonup> string list"

definition Get :: "(string \<rightharpoonup> string list) \<Rightarrow> string \<Rightarrow> string" where
  "Get v key = (case v key of None \<Rightarrow> [] | Some [] \<Rightarrow> [] | Some (x # xs) \<Rightarrow> x)"

section \<open>Command lifecycle adapter (internal/adapters/blink)\<close>

definition BASE_URL :: string where
  "BASE_URL = ''https://rest-%s.immedia-semi.com''"

record ClientCredentials =
  Region :: string
  ApiToken :: string
  DeviceType :: string
  AccountId :: go_int
  NetworkId :: go_int
  CameraId :: go_int

definition CreateLiveViewURI :: "ClientCredentials \<Rightarrow> error + string" where
  "CreateLiveViewURI cc =
    (let path =
       (if DeviceType cc = ''camera''
          then ''/api/v5/accounts/%d/networks/%d/cameras/%d/liveview''
        else if DeviceType cc = ''owl'' \<or> DeviceType cc = ''hawk''
          then ''/api/v2/accounts/%d/networks/%d/owls/%d/liveview''
        else if DeviceType cc = ''doorbell'' \<or> DeviceType cc = ''lotus''
          then ''/api/v2/accounts/%d/networks/%d/doorbells/%d/liveview''
        else [])
     in if path \<noteq> []
        then Inr (Sprintf (BASE_URL @ path)
                    [S (Region cc), D (AccountId cc), D (NetworkId cc), D (CameraId cc)])
        else Inl (UnknownDeviceType (DeviceType cc)))"

definition CreatePollingURI :: "ClientCredentials \<Rightarrow> go_int \<Rightarrow> error + string" where
  "CreatePollingURI cc commandId =
     Inr (Sprintf (BASE_URL @ ''/network/%d/command/%d'')
            [S (Region cc), D (NetworkId cc), D commandId])"

text \<open>
  \<open>ParseConnectionString(server)\<close>. \<open>url.Parse\<close> is a parameter: the function that
  gives, for a connection string, the parsed URL or an error.
\<close>

definition ParseConnectionString ::
  "(string \<Rightarrow> error + URL) \<Rightarrow> string \<Rightarrow> error + (string \<times> string \<times> go_int \<times> string)" where
  "ParseConnectionString url_Parse server =
    (case url_Parse server of
       Inl err \<Rightarrow> Inl err
     | Inr parsedUrl \<Rightarrow>
         if Hostname parsedUrl = [] then Inl InvalidHost
         else if Port parsedUrl \<noteq> ''443'' then Inl (UnexpectedPort (Port parsedUrl))
         else
           let pathSegments = Split (Path parsedUrl) (CHR ''/'')
           in if length pathSegments = 0 then Inl InvalidPath
              else
                let connID = Split (last pathSegments) (CHR ''_'')
                in if length connID < 2 \<or> hd connID = [] then Inl InvalidConnectionID
                   else
                     let (clientID, err) = Atoi (Get (Query parsedUrl) ''client_id'')
                     in if clientID = 0 \<or> err \<noteq> None then Inl InvalidClientID
                        else Inr (Hostname parsedUrl, Port parsedUrl, clientID, hd connID))"

subsection \<open>HTTP requests and responses\<close>

text \<open>
  An \<open>http.Request\<close> as the adapter builds it, and the part of an \<open>http.Response\<close> it
  reads: the status code and what \<open>io.ReadAll(resp.Body)\<close> returns. The field
  \<open>status_code\<close> of \<open>CommandResponse\<close> is the Go field \<open>StatusCode\<close>, named here by its
  JSON tag to keep it apart from the response's.
\<close>

record Request =
  Method :: string
  RequestURL :: string
  Header :: "(string \<times> string) list"
  RequestBody :: "string option"

record Response =
  StatusCode :: go_int
  Body :: "error + string"

record CommandResponse =
  Code :: go_int
  status_code :: go_int
  Message :: string
  Complete :: bool

record LiveviewResponse =
  CommandId :: go_int
  PollingInterval :: go_int
  Server :: string

text \<open>
  The behaviour of the libraries and of the network, which the adapter only calls:
  \<^item> \<open>url_Parse\<close>: \<open>url.Parse\<close>;
  \<^item> \<open>NewRequest_error\<close>: the error of \<open>http.NewRequest(method, url, body)\<close>, if any;
  \<^item> \<open>client_Do\<close>: \<open>client.Do(req)\<close> for the \<open>n\<close>-th request sent, a pair of a
    response pointer (\<open>None\<close> is \<open>nil\<close>) and an error (\<open>None\<close> is \<open>nil\<close>);
  \<^item> \<open>Unmarshal_LiveviewResponse\<close>, \<open>Unmarshal_CommandResponse\<close>: \<open>json.Unmarshal\<close>
    of a body into the zero value of the struct.
\<close>

record env =
  url_Parse :: "string \<Rightarrow> error + URL"
  NewRequest_error :: "string \<Rightarrow> string \<Rightarrow> error option"
  client_Do :: "nat \<Rightarrow> Request \<Rightarrow> Response option \<times> error option"
  Unmarshal_LiveviewResponse :: "string \<Rightarrow> error + LiveviewResponse"
  Unmarshal_CommandResponse :: "string \<Rightarrow> error + CommandResponse"

type_synonym Duration = "64 word"

definition Second :: Duration where
  "Second = 1000000000"

text \<open>
  \<open>StreamConfig\<close>: the context is the number of the cancellable scope; the writer and
  the callbacks are given by the stream's environment (see \<open>Stream\<close>).
\<close>

record StreamConfig =
  Ctx :: nat
  ReadTimeout :: Duration
  PingInterval :: Duration

text \<open>
  A \<open>go\<close> statement adds the started activity to the world; a context is a number, and
  calling its cancel function adds the number to \<open>cancelled\<close>.
\<close>

datatype activity =
    PollActivity nat ClientCredentials go_int go_int
  | StreamActivity StreamConfig string string string go_int

record world =
  requests :: "Request list"
  spawned :: "activity list"
  cancelled :: "nat list"
  next_ctx :: nat
  logged :: "error list"

text \<open>
  \<open>textproto.CanonicalMIMEHeaderKey\<close>, which \<open>Header.Set\<close> applies to the key: the
  first letter and every letter after a hyphen in upper case, the other letters in
  lower case; a key with a byte that is not a header field byte is left as it is.
\<close>

definition validHeaderFieldByte :: "char \<Rightarrow> bool" where
  "validHeaderFieldByte c =
    (let n = (of_char c :: int)
     in n = 33 \<or> (35 \<le> n \<and> n \<le> 39) \<or> n = 42 \<or> n = 43 \<or> n = 45 \<or> n = 46
        \<or> (48 \<le> n \<and> n \<le> 57) \<or> (65 \<le> n \<and> n \<le> 90)
        \<or> (94 \<le> n \<and> n \<le> 122) \<or> n = 124 \<or> n = 126)"

definition to_upper :: "char \<Rightarrow> char" where
  "to_upper c =
    (if 97 \<le> (of_char c :: int) \<and> (of_char c :: int) \<le> 122
     then char_of ((of_char c :: int) - 32) else c)"

definition to_lower :: "char \<Rightarrow> char" where
  "to_lower c =
    (if 65 \<le> (of_char c :: int) \<and> (of_char c :: int) \<le> 90
     then char_of ((of_char c :: int) + 32) else c)"

fun canonical_case :: "bool \<Rightarrow> string \<Rightarrow> string" where
  "canonical_case upper [] = []"
| "canonical_case upper (c # cs) =
     (if upper then to_upper c else to_lower c) # canonical_case (c = CHR ''-'') cs"

definition CanonicalMIMEHeaderKey :: "string \<Rightarrow> string" where
  "CanonicalMIMEHeaderKey s = (if list_all validHeaderFieldByte s then canonical_case True s else s)"

definition Header_Set :: "(string \<times> string) list \<Rightarrow> string \<Rightarrow> string \<Rightarrow> (string \<times> string) list" where
  "Header_Set h key v =
    (let k = CanonicalMIMEHeaderKey key in filter (\<lambda>p. fst p \<noteq> k) h @ [(k, v)])"

definition SetRequestHeaders :: "Request \<Rightarrow> string \<Rightarrow> Request" where
  "SetRequestHeaders req token =
    (let h1 = Header_Set (Header req) ''locale'' ''en_US'';
         h2 = Header_Set h1 ''Authorization'' (Sprintf ''Bearer %s'' [S token]);
         h3 = Header_Set h2 ''content-type'' ''application/json; charset=UTF-8''
     in req\<lparr>Header := h3\<rparr>)"

definition NewRequest :: "env \<Rightarrow> string \<Rightarrow> string \<Rightarrow> string option \<Rightarrow> error + Request" where
  "NewRequest e method url body =
    (case NewRequest_error e method url of
       Some err \<Rightarrow> Inl err
     | None \<Rightarrow> Inr \<lparr>Method = method, RequestURL = url, Header = [], RequestBody = body\<rparr>)"

text \<open>\<open>client.Do(req)\<close>: the request is sent (logged in the world) and answered.\<close>

definition Do :: "env \<Rightarrow> Request \<Rightarrow> world \<Rightarrow> (Response option \<times> error option) \<times> world" where
  "Do e req w = (client_Do e (length (requests w)) req, w\<lparr>requests := requests w @ [req]\<rparr>)"

text \<open>The JSON of \<open>LiveviewInput{Intent: "liveview"}\<close>.\<close>

definition liveview_intent_json :: string where
  "liveview_intent_json =
     ''{'' @ [CHR 0x22] @ ''intent'' @ [CHR 0x22] @ '':'' @ [CHR 0x22] @ ''liveview'' @ [CHR 0x22] @ ''}''"

subsection \<open>Start, poll and stop\<close>

text \<open>
  In the three operations \<open>resp.StatusCode != http.StatusOK || err != nil\<close> reads
  \<open>resp.StatusCode\<close> first: with a nil \<open>resp\<close> that is a nil pointer dereference.
\<close>

definition InitiateLiveView ::
  "env \<Rightarrow> ClientCredentials \<Rightarrow> world \<Rightarrow> (error + LiveviewResponse) outcome \<times> world" where
  "InitiateLiveView e cc w =
    (case CreateLiveViewURI cc of
       Inl err \<Rightarrow> (Returns (Inl (LiveviewPathError err)), w)
     | Inr url \<Rightarrow>
        (case NewRequest e ''POST'' url (Some liveview_intent_json) of
           Inl err \<Rightarrow> (Returns (Inl err), w)
         | Inr req0 \<Rightarrow>
            let req = SetRequestHeaders req0 (ApiToken cc);
                ((resp, err), w') = Do e req w
            in (case resp of
                  None \<Rightarrow> (Panics NilPointerDereference, w')
                | Some r \<Rightarrow>
                    if StatusCode r \<noteq> 200 \<or> err \<noteq> None
                    then (Returns (Inl (ApiHttpStatus (StatusCode r))), w')
                    else
                      (case Body r of
                         Inl err \<Rightarrow> (Returns (Inl err), w')
                       | Inr body \<Rightarrow>
                          (case Unmarshal_LiveviewResponse e body of
                             Inl err \<Rightarrow> (Returns (Inl err), w')
                           | Inr result \<Rightarrow>
                               if CommandId result = 0
                               then (Returns (Inl LiveviewCommandError), w')
                               else (Returns (Inr result), w'))))))"

text \<open>
  The poll loop. Each \<open>select\<close> is decided by the next event: the context is done, or
  the ticker fired. With no event left the loop is still waiting: the result is \<open>None\<close>.
\<close>

datatype poll_event = CtxDone | Tick

fun poll_loop ::
  "env \<Rightarrow> ClientCredentials \<Rightarrow> string \<Rightarrow> poll_event list \<Rightarrow> world
     \<Rightarrow> (error option) outcome option \<times> world" where
  "poll_loop e cc url [] w = (None, w)"
| "poll_loop e cc url (CtxDone # evs) w = (Some (Returns None), w)"
| "poll_loop e cc url (Tick # evs) w =
    (case NewRequest e ''GET'' url None of
       Inl err \<Rightarrow> (Some (Returns (Some err)), w)
     | Inr req0 \<Rightarrow>
        let req = SetRequestHeaders req0 (ApiToken cc);
            ((resp, err), w') = Do e req w
        in (case resp of
              None \<Rightarrow> (Some (Panics NilPointerDereference), w')
            | Some r \<Rightarrow>
                if StatusCode r \<noteq> 200 \<or> err \<noteq> None
                then (Some (Returns (Some (PollHttpStatus (StatusCode r)))), w')
                else
                  (case Body r of
                     Inl err \<Rightarrow> (Some (Returns (Some err)), w')
                   | Inr body \<Rightarrow>
                      (case Unmarshal_CommandResponse e body of
                         Inl err \<Rightarrow> (Some (Returns (Some err)), w')
                       | Inr result \<Rightarrow>
                           if Complete result
                           then (Some (Returns (Some CommandComplete)), w')
                           else poll_loop e cc url evs w'))))"

text \<open>
  \<open>PollCommand\<close>. \<open>time.NewTicker\<close> panics when the duration
  \<open>time.Duration(pollInterval) * time.Second\<close> is not positive.
\<close>

definition PollCommand ::
  "env \<Rightarrow> ClientCredentials \<Rightarrow> go_int \<Rightarrow> go_int \<Rightarrow> poll_event list \<Rightarrow> world
     \<Rightarrow> (error option) outcome option \<times> world" where
  "PollCommand e cc commandId pollInterval evs w =
    (if sint (pollInterval * Second) \<le> 0 then (Some (Panics NonPositiveTickerInterval), w)
     else
       (case CreatePollingURI cc commandId of
          Inl err \<Rightarrow> (Some (Returns (Some (PollingURLError err))), w)
        | Inr url \<Rightarrow> poll_loop e cc url evs w))"

definition StopCommand ::
  "env \<Rightarrow> ClientCredentials \<Rightarrow> go_int \<Rightarrow> world \<Rightarrow> (error option) outcome \<times> world" where
  "StopCommand e cc commandId w =
    (case CreatePollingURI cc commandId of
       Inl err \<Rightarrow> (Returns (Some (PollingURLError err)), w)
     | Inr url \<Rightarrow>
        (case NewRequest e ''POST'' (url @ ''/done'') None of
           Inl err \<Rightarrow> (Returns (Some err), w)
         | Inr req0 \<Rightarrow>
            let req = SetRequestHeaders req0 (ApiToken cc);
                ((resp, err), w') = Do e req w
            in (case resp of
                  None \<Rightarrow> (Panics NilPointerDereference, w')
                | Some r \<Rightarrow>
                    if StatusCode r \<noteq> 200 \<or> err \<noteq> None
                    then (Returns (Some (StopHttpStatus (StatusCode r))), w')
                    else
                      (case Body r of
                         Inl err \<Rightarrow> (Returns (Some err), w')
                       | Inr body \<Rightarrow>
                          (case Unmarshal_CommandResponse e body of
                             Inl err \<Rightarrow> (Returns (Some err), w')
                           | Inr result \<Rightarrow>
                               if Code result \<noteq> 902
                               then (Returns (Some (StopApiCode (Code result) (Message result))), w')
                               else (Returns None, w'))))))"

section \<open>Stream transport (internal/transport)\<close>

text \<open>
  An error of \<open>client.Read\<close>, with what the classification asks of it:
  \<open>errors.Is(err, io.EOF)\<close>, \<open>errors.Is(err, syscall.ECONNRESET)\<close>, and whether it is
  a \<open>net.Error\<close> whose \<open>Timeout()\<close> holds.
\<close>

record read_error =
  is_EOF :: bool
  is_ECONNRESET :: bool
  is_net_Timeout :: bool
  read_err :: error

text \<open>
  What the outside does during one pass of the read loop: whether the context is done,
  the result of \<open>SetReadDeadline\<close>, of \<open>Read\<close> (an error or the bytes received), of
  the writer's \<open>Write\<close>, whether \<open>time.Since(start) > config.PingInterval\<close>, and the
  result of \<open>OnPing\<close>.
\<close>

record iteration =
  ctx_done :: bool
  set_deadline :: "error option"
  read_result :: "read_error + byte list"
  write_result :: "error option"
  ping_due :: bool
  on_ping :: "error option"

record stream_env =
  dial :: "error option"
  on_connect :: "error option"
  iterations :: "iteration list"

text \<open>
  What a run of \<open>Stream\<close> did: the timeout given to each \<open>SetReadDeadline\<close> that was
  followed by a read, in order; the blocks written to the writer; the number of pings.
\<close>

record stream_trace =
  deadlines :: "Duration list"
  written :: "byte list list"
  pings :: nat

definition classify_read_error :: "read_error \<Rightarrow> error" where
  "classify_read_error err =
    (if is_EOF err then ClosedByPeer (read_err err)
     else if is_ECONNRESET err then ResetByPeer (read_err err)
     else if is_net_Timeout err then ReadTimeoutError (read_err err)
     else ReadError (read_err err))"

text \<open>
  The read loop, one pass for each element of the environment; with none left the
  loop is still running and the result is \<open>None\<close>. \<open>Some streamErr\<close> is the loop's exit
  with that value of \<open>streamErr\<close>. The buffer has 64 bytes.
\<close>

fun stream_loop ::
  "iteration list \<Rightarrow> Duration \<Rightarrow> stream_trace \<Rightarrow> (error option) option \<times> stream_trace" where
  "stream_loop [] readTimeout t = (None, t)"
| "stream_loop (it # its) readTimeout t =
    (if ctx_done it then (Some None, t)
     else
      (case set_deadline it of
         Some err \<Rightarrow> (Some (Some (ReadDeadlineError err)), t)
       | None \<Rightarrow>
          let t1 = t\<lparr>deadlines := deadlines t @ [readTimeout]\<rparr>
          in (case read_result it of
                Inl err \<Rightarrow> (Some (Some (classify_read_error err)), t1)
              | Inr received \<Rightarrow>
                 (case write_result it of
                    Some err \<Rightarrow> (Some (Some (WriterError err)), t1)
                  | None \<Rightarrow>
                     let t2 = t1\<lparr>written := written t1 @ [take 64 received]\<rparr>
                     in if ping_due it then
                          (case on_ping it of
                             Some err \<Rightarrow> (Some (Some (KeepAliveError err)), t2)
                           | None \<Rightarrow> stream_loop its (2 * Second) (t2\<lparr>pings := pings t2 + 1\<rparr>))
                        else stream_loop its (2 * Second) t2))))"

definition Stream ::
  "stream_env \<Rightarrow> StreamConfig \<Rightarrow> string \<Rightarrow> string \<Rightarrow> (error option) option \<times> stream_trace" where
  "Stream se config host port =
    (let t0 = \<lparr>deadlines = [], written = [], pings = 0\<rparr>
     in case dial se of
          Some err \<Rightarrow> (Some (Some (StreamInitError err)), t0)
        | None \<Rightarrow>
           (case on_connect se of
              Some err \<Rightarrow> (Some (Some (OnConnectError err)), t0)
            | None \<Rightarrow> stream_loop (iterations se) (ReadTimeout config) t0))"

section \<open>Client (pkg/liveview)\<close>

record ClientConfig =
  ConnectTimeout :: Duration

text \<open>
  \<open>streamContext\<close> and \<open>streamCancel\<close> hold the number of the context created by
  \<open>context.WithCancel\<close>; \<open>None\<close> is \<open>nil\<close>.
\<close>

record clientState =
  connected :: bool
  lvCommandId :: go_int
  streamContext :: "nat option"
  streamCancel :: "nat option"

record Client =
  credentials :: ClientCredentials
  config :: ClientConfig
  state :: clientState

definition NewClient ::
  "string \<Rightarrow> string \<Rightarrow> string \<Rightarrow> go_int \<Rightarrow> go_int \<Rightarrow> go_int \<Rightarrow> Client" where
  "NewClient region apiToken deviceType accountId networkId cameraId =
    \<lparr>credentials = \<lparr>Region = region, ApiToken = apiToken, DeviceType = deviceType,
                     AccountId = accountId, NetworkId = networkId, CameraId = cameraId\<rparr>,
     config = \<lparr>ConnectTimeout = 15 * Second\<rparr>,
     state = \<lparr>connected = False, lvCommandId = 0, streamContext = None, streamCancel = None\<rparr>\<rparr>"

text \<open>
  \<open>Connect\<close>. The two \<open>go\<close> statements add the poll and the stream activity to the
  world; the stream activity is the one that calls \<open>Disconnect\<close> when the stream ends.
\<close>

definition Connect :: "env \<Rightarrow> Client \<Rightarrow> world \<Rightarrow> (error option) outcome \<times> Client \<times> world" where
  "Connect e c w =
    (if connected (state c) then (Returns (Some AlreadyConnected), c, w)
     else
      (case InitiateLiveView e (credentials c) w of
         (Panics p, w1) \<Rightarrow> (Panics p, c, w1)
       | (Returns (Inl err), w1) \<Rightarrow> (Returns (Some (ConnectError err)), c, w1)
       | (Returns (Inr resp), w1) \<Rightarrow>
          let ctx = next_ctx w1;
              w2 = w1\<lparr>next_ctx := ctx + 1\<rparr>;
              c1 = c\<lparr>state := \<lparr>connected = True, lvCommandId = CommandId resp,
                               streamContext = Some ctx, streamCancel = Some ctx\<rparr>\<rparr>;
              w3 = w2\<lparr>spawned := spawned w2 @
                     [PollActivity ctx (credentials c1) (CommandId resp) (PollingInterval resp)]\<rparr>
          in (case ParseConnectionString (url_Parse e) (Server resp) of
                Inl err \<Rightarrow> (Returns (Some (ConnectParseError err)), c1, w3)
              | Inr (host, port, clientId, connId) \<Rightarrow>
                 let streamConfig = \<lparr>Ctx = ctx, ReadTimeout = ConnectTimeout (config c1),
                                      PingInterval = 1 * Second\<rparr>;
                     w4 = w3\<lparr>spawned := spawned w3 @
                            [StreamActivity streamConfig host port connId clientId]\<rparr>
                 in (Returns None, c1, w4))))"

text \<open>
  \<open>Disconnect\<close>. Calling a nil \<open>streamCancel\<close> would be a nil dereference; a failure
  of \<open>StopCommand\<close> is logged and not returned.
\<close>

definition Disconnect :: "env \<Rightarrow> Client \<Rightarrow> world \<Rightarrow> (error option) outcome \<times> Client \<times> world" where
  "Disconnect e c w =
    (if \<not> connected (state c) then (Returns None, c, w)
     else
      (case streamCancel (state c) of
         None \<Rightarrow> (Panics NilPointerDereference, c, w)
       | Some ctx \<Rightarrow>
          let w1 = w\<lparr>cancelled := ctx # cancelled w\<rparr>;
              c1 = c\<lparr>state := (state c)\<lparr>connected := False\<rparr>\<rparr>
          in (case StopCommand e (credentials c1) (lvCommandId (state c1)) w1 of
                (Panics p, w2) \<Rightarrow> (Panics p, c1, w2)
              | (Returns r, w2) \<Rightarrow>
                 let w3 = (case r of Some err \<Rightarrow> w2\<lparr>logged := logged w2 @ [err]\<rparr> | None \<Rightarrow> w2);
                     c2 = c1\<lparr>state := (state c1)\<lparr>streamContext := None, streamCancel := None,
                                                  lvCommandId := 0\<rparr>\<rparr>
                 in (Returns None, c2, w3))))"

definition IsConnected :: "Client \<Rightarrow> bool" where
  "IsConnected c = connected (state c)"

text \<open>An activity is left running when its context has not been cancelled.\<close>

fun activity_ctx :: "activity \<Rightarrow> nat" where
  "activity_ctx (PollActivity ctx cc commandId pollInterval) = ctx"
| "activity_ctx (StreamActivity cfg host port connId clientId) = Ctx cfg"

definition running :: "world \<Rightarrow> activity list" where
  "running w = filter (\<lambda>a. activity_ctx a \<notin> set (cancelled w)) (spawned w)"

section \<open>Reference requests and example environments\<close>

text \<open>
  The integer a string denotes when it is an optional sign followed by one or more
  decimal digits, and \<open>None\<close> for any other string: the reference for "the
  \<open>client_id\<close> is a decimal integer".
\<close>

definition decimal_integer :: "string \<Rightarrow> int option" where
  "decimal_integer s =
    (let ds = (if s \<noteq> [] \<and> (hd s = CHR ''-'' \<or> hd s = CHR ''+'') then tl s else s)
     in if ds \<noteq> [] \<and> list_all is_digit ds
        then Some (if hd s = CHR ''-'' then - decimal_value ds else decimal_value ds)
        else None)"

text \<open>The request \<open>StopCommand\<close> sends for a command id.\<close>

definition stop_request :: "ClientCredentials \<Rightarrow> go_int \<Rightarrow> Request" where
  "stop_request cc commandId =
    SetRequestHeaders
      \<lparr>Method = ''POST'',
       RequestURL = Sprintf (BASE_URL @ ''/network/%d/command/%d'')
                      [S (Region cc), D (NetworkId cc), D commandId] @ ''/done'',
       Header = [], RequestBody = None\<rparr>
      (ApiToken cc)"

text \<open>
  Concrete inputs for the examples: the credentials of the README, an empty world, the
  parsed form of five connection strings, and an environment in which every request is
  answered the same way and every body decodes to the given values.
\<close>

definition example_cc :: ClientCredentials where
  "example_cc =
    \<lparr>Region = ''u011'', ApiToken = ''your-api-token'', DeviceType = ''owl'',
     AccountId = 12345, NetworkId = 67890, CameraId = 11111\<rparr>"

definition world0 :: world where
  "world0 = \<lparr>requests = [], spawned = [], cancelled = [], next_ctx = 0, logged = []\<rparr>"

definition example_url_Parse :: "string \<Rightarrow> error + URL" where
  "example_url_Parse server =
    (if server = ''https://host:443/path/ABC_123?client_id=55'' then
       Inr \<lparr>Hostname = ''host'', Port = ''443'', Path = ''/path/ABC_123'',
            Query = [''client_id'' \<mapsto> [''55'']]\<rparr>
     else if server = ''https://host:443/path/ABC_123?client_id=-55'' then
       Inr \<lparr>Hostname = ''host'', Port = ''443'', Path = ''/path/ABC_123'',
            Query = [''client_id'' \<mapsto> [''-55'']]\<rparr>
     else if server = ''https://host:80/path/ABC_123?client_id=55'' then
       Inr \<lparr>Hostname = ''host'', Port = ''80'', Path = ''/path/ABC_123'',
            Query = [''client_id'' \<mapsto> [''55'']]\<rparr>
     else if server = ''https://:443/path/ABC_123?client_id=55'' then
       Inr \<lparr>Hostname = [], Port = ''443'', Path = ''/path/ABC_123'',
            Query = [''client_id'' \<mapsto> [''55'']]\<rparr>
     else if server = ''https://host:443/path/ABC_123?client_id=9223372036854775808'' then
       Inr \<lparr>Hostname = ''host'', Port = ''443'', Path = ''/path/ABC_123'',
            Query = [''client_id'' \<mapsto> [''9223372036854775808'']]\<rparr>
     else Inl (External ''parse error''))"

definition example_env ::
  "Response option \<times> error option \<Rightarrow> LiveviewResponse \<Rightarrow> CommandResponse \<Rightarrow> env" where
  "example_env answer lv cmd =
    \<lparr>url_Parse = example_url_Parse,
     NewRequest_error = (\<lambda>method url. None),
     client_Do = (\<lambda>n req. answer),
     Unmarshal_LiveviewResponse = (\<lambda>body. Inr lv),
     Unmarshal_CommandResponse = (\<lambda>body. Inr cmd)\<rparr>"

definition ok_response :: "Response option \<times> error option" where
  "ok_response = (Some \<lparr>StatusCode = 200, Body = Inr ''{}''\<rparr>, None)"

definition server_error_response :: "Response option \<times> error option" where
  "server_error_response = (Some \<lparr>StatusCode = 500, Body = Inr ''{}''\<rparr>, None)"

definition transport_failure :: "Response option \<times> error option" where
  "transport_failure = (None, Some (External ''dial tcp: connection refused''))"

section \<open>Facts about the library functions and the examples\<close>

lemma Split_nonempty: "Split s sep \<noteq> []"
  by (induction s) (auto split: list.splits)

lemma Split_prefix: "sep \<notin> set p \<Longrightarrow> Split (p @ sep # rest) sep = p # Split rest sep"
  by (induction p) (auto split: list.splits)

lemma Split_examples:
  "Split ''/path/ABC_123'' (CHR ''/'') = [[], ''path'', ''ABC_123'']"
  "Split ''ABC_123'' (CHR ''_'') = [''ABC'', ''123'']"
  by simp_all

lemma Atoi_empty: "Atoi [] = (0, Some (External ''strconv.Atoi: invalid syntax''))"
  by (simp add: Atoi_def)

lemma Atoi_55: "Atoi ''55'' = (55, None)"
  by (simp add: Atoi_def decimal_value_def is_digit_def)

lemma Atoi_m55: "Atoi ''-55'' = (- 55, None)"
  by (simp add: Atoi_def decimal_value_def is_digit_def)

lemma Atoi_0: "Atoi ''0'' = (0, None)"
  by (simp add: Atoi_def decimal_value_def is_digit_def)

lemma format_example_ids:
  "format_int 12345 = ''12345''"
  "format_int 67890 = ''67890''"
  "format_int 11111 = ''11111''"
  by (simp_all add: format_int_def digits.simps char_of_def)

lemma example_env_sel:
  "NewRequest_error (example_env a lv cmd) m u = None"
  "client_Do (example_env a lv cmd) n req = a"
  "Unmarshal_CommandResponse (example_env a lv cmd) b = Inr cmd"
  "Unmarshal_LiveviewResponse (example_env a lv cmd) b = Inr lv"
  "url_Parse (example_env a lv cmd) = example_url_Parse"
  by (simp_all add: example_env_def)

lemma example_url_Parse_values:
  "example_url_Parse ''https://host:443/path/ABC_123?client_id=55''
     = Inr \<lparr>Hostname = ''host'', Port = ''443'', Path = ''/path/ABC_123'',
            Query = [''client_id'' \<mapsto> [''55'']]\<rparr>"
  "example_url_Parse ''https://host:443/path/ABC_123?client_id=-55''
     = Inr \<lparr>Hostname = ''host'', Port = ''443'', Path = ''/path/ABC_123'',
            Query = [''client_id'' \<mapsto> [''-55'']]\<rparr>"
  "example_url_Parse ''https://host:80/path/ABC_123?client_id=55''
     = Inr \<lparr>Hostname = ''host'', Port = ''80'', Path = ''/path/ABC_123'',
            Query = [''client_id'' \<mapsto> [''55'']]\<rparr>"
  "example_url_Parse ''https://:443/path/ABC_123?client_id=55''
     = Inr \<lparr>Hostname = [], Port = ''443'', Path = ''/path/ABC_123'',
            Query = [''client_id'' \<mapsto> [''55'']]\<rparr>"
  "example_url_Parse ''https://host:443/path/ABC_123?client_id=9223372036854775808''
     = Inr \<lparr>Hostname = ''host'', Port = ''443'', Path = ''/path/ABC_123'',
            Query = [''client_id'' \<mapsto> [''9223372036854775808'']]\<rparr>"
  by (simp_all add: example_url_Parse_def)

lemma ParseConnectionString_port80:
  "ParseConnectionString example_url_Parse ''https://host:80/path/ABC_123?client_id=55''
     = Inl (UnexpectedPort ''80'')"
  by (simp add: ParseConnectionString_def example_url_Parse_values)

lemma canonical_keys:
  "CanonicalMIMEHeaderKey ''locale'' = ''Locale''"
  "CanonicalMIMEHeaderKey ''Authorization'' = ''Authorization''"
  "CanonicalMIMEHeaderKey ''content-type'' = ''Content-Type''"
  by (simp_all add: CanonicalMIMEHeaderKey_def validHeaderFieldByte_def to_upper_def
      to_lower_def char_of_def)

lemma SetRequestHeaders_headers:
  "Header (SetRequestHeaders \<lparr>Method = m, RequestURL = u, Header = [], RequestBody = b\<rparr> token)
     = [(''Locale'', ''en_US''), (''Authorization'', ''Bearer '' @ token),
        (''Content-Type'', ''application/json; charset=UTF-8'')]"
  by (simp add: SetRequestHeaders_def Header_Set_def canonical_keys)

section \<open>Big-endian encoding\<close>

lemma unat_byte_of:
  "unat (ucast (drop_bit k (v::uint32)) :: byte) = (unat v div 2 ^ k) mod 256"
  by (simp add: unsigned_ucast_eq unat_drop_bit_eq) (simp add: take_bit_eq_mod drop_bit_eq_div)

lemma be_split:
  fixes n :: nat
  assumes "n < 2 ^ 32"
  shows "(((n div 2 ^ 24) mod 256 * 256 + (n div 2 ^ 16) mod 256) * 256
            + (n div 2 ^ 8) mod 256) * 256 + n mod 256 = n"
proof -
  define q1 where "q1 = n div 256"
  define q2 where "q2 = q1 div 256"
  define q3 where "q3 = q2 div 256"
  have e8: "n div 2 ^ 8 = q1" by (simp add: q1_def)
  have e16: "n div 2 ^ 16 = q2" by (simp add: q1_def q2_def div_mult2_eq [symmetric])
  have e24: "n div 2 ^ 24 = q3" by (simp add: q1_def q2_def q3_def div_mult2_eq [symmetric])
  have "q3 < 256" using assms e24 [symmetric] by (simp add: less_mult_imp_div_less)
  then have m3: "q3 mod 256 = q3" by simp
  have s1: "n = q1 * 256 + n mod 256" by (simp add: q1_def)
  have s2: "q1 = q2 * 256 + q1 mod 256" by (simp add: q2_def)
  have s3: "q2 = q3 * 256 + q2 mod 256" by (simp add: q3_def)
  show ?thesis unfolding e8 e16 e24 m3 using s1 s2 s3 by simp
qed

lemma be_value_PutUint32: "be_value (PutUint32 v) = unat v"
proof -
  have "unat v < 2 ^ 32" using unsigned_less [of v] by simp
  from be_split [OF this] show ?thesis
    using unat_byte_of [of 24 v] unat_byte_of [of 16 v] unat_byte_of [of 8 v]
      unat_byte_of [of 0 v]
    by (simp add: be_value_def PutUint32_def)
qed

lemma uint32_of_go_int: "int (unat (ucast (c::go_int) :: uint32)) = sint c mod 2 ^ 32"
proof -
  have "uint (ucast c :: uint32) = take_bit 32 (uint c)" by (simp add: unsigned_ucast_eq)
  also have "\<dots> = take_bit 32 (take_bit 64 (sint c))" by (simp add: uint_sint)
  also have "\<dots> = take_bit 32 (sint c)" by simp
  finally show ?thesis by (simp add: take_bit_eq_mod)
qed

lemma GenerateAuthFrames_blocks:
  "GenerateAuthFrames connectionId clientId =
     [frame1, PutUint32 (ucast clientId), frame3, bytes_of_string connectionId, frame5]"
  by (simp add: GenerateAuthFrames_def PutUint32_def)

lemma frame_lengths: "length frame1 = 24" "length frame3 = 74" "length frame5 = 13"
  by (simp_all add: frame1_def frame3_def frame5_def)

section \<open>Handshake frames\<close>

text \<open>
  C5. Build-handshake-frames returns, for every connection id and client id, exactly five
  blocks of lengths 24, 4, 74, the length of the connection id, and 13. Block 2 has four
  bytes and, read big-endian, is the client id as converted by \<open>uint32\<close>, which is the
  client id itself whenever that fits in 32 bits unsigned; block 4 is the bytes of the
  connection id with nothing appended; blocks 1, 3 and 5 are the same for all inputs.
\<close>

theorem GenerateAuthFrames_layout:
  "length (GenerateAuthFrames connectionId clientId) = 5
   \<and> map length (GenerateAuthFrames connectionId clientId)
       = [24, 4, 74, length connectionId, 13]
   \<and> be_value (GenerateAuthFrames connectionId clientId ! 1) = unat (ucast clientId :: uint32)
   \<and> (0 \<le> sint clientId \<and> sint clientId < 2 ^ 32
        \<longrightarrow> int (be_value (GenerateAuthFrames connectionId clientId ! 1)) = sint clientId)
   \<and> GenerateAuthFrames connectionId clientId ! 3 = bytes_of_string connectionId
   \<and> bytes_of_string connectionId = map of_char connectionId
   \<and> GenerateAuthFrames connectionId clientId ! 0 = frame1
   \<and> GenerateAuthFrames connectionId clientId ! 2 = frame3
   \<and> GenerateAuthFrames connectionId clientId ! 4 = frame5
   \<and> GenerateAuthFrames connectionId clientId ! 0 = GenerateAuthFrames connectionId' clientId' ! 0
   \<and> GenerateAuthFrames connectionId clientId ! 2 = GenerateAuthFrames connectionId' clientId' ! 2
   \<and> GenerateAuthFrames connectionId clientId ! 4 = GenerateAuthFrames connectionId' clientId' ! 4"
proof -
  have v: "be_value (PutUint32 (ucast clientId)) = unat (ucast clientId :: uint32)"
    by (rule be_value_PutUint32)
  have r: "0 \<le> sint clientId \<and> sint clientId < 2 ^ 32
        \<longrightarrow> int (be_value (PutUint32 (ucast clientId))) = sint clientId"
    using uint32_of_go_int [of clientId] by (simp add: v)
  have l: "length (PutUint32 (ucast clientId)) = 4" by (simp add: PutUint32_def)
  show ?thesis
    using v r l by (simp add: GenerateAuthFrames_blocks frame_lengths bytes_of_string_def)
qed

theorem GenerateAuthFrames_layout_witness:
  "0 \<le> sint (55 :: go_int) \<and> sint (55 :: go_int) < 2 ^ 32
   \<and> GenerateAuthFrames ''ABC'' 55 ! 1 = [0, 0, 0, 55]
   \<and> int (be_value (GenerateAuthFrames ''ABC'' 55 ! 1)) = 55
   \<and> GenerateAuthFrames ''ABC'' 55 ! 3 = [65, 66, 67]
   \<and> map length (GenerateAuthFrames ''ABC'' 55) = [24, 4, 74, 3, 13]"
  using GenerateAuthFrames_layout [of "''ABC''" 55]
  by (simp add: GenerateAuthFrames_blocks PutUint32_def bytes_of_string_def)

text \<open>
  C10. For every client id, block 2 read big-endian is the client id reduced modulo
  \<open>2 ^ 32\<close>. The function has no error result, so a negative client id is encoded as its
  32-bit two's-complement value, not rejected.
\<close>

theorem GenerateAuthFrames_clientId_mod:
  "length (GenerateAuthFrames connectionId clientId ! 1) = 4
   \<and> int (be_value (GenerateAuthFrames connectionId clientId ! 1)) = sint clientId mod 2 ^ 32"
  using uint32_of_go_int [of clientId]
  by (simp add: GenerateAuthFrames_blocks be_value_PutUint32) (simp add: PutUint32_def)

lemma uint32_negative_example: "(ucast (- 5 :: go_int) :: uint32) = 4294967291"
  by (simp add: ucast_eq)

lemma GenerateAuthFrames_negative_example:
  "sint (- 5 :: go_int) = - 5
   \<and> GenerateAuthFrames ''ABC'' (- 5) ! 1 = [0xff, 0xff, 0xff, 0xfb]
   \<and> be_value (GenerateAuthFrames ''ABC'' (- 5) ! 1) = 4294967291"
  by (simp add: GenerateAuthFrames_blocks uint32_negative_example be_value_PutUint32)
    (simp add: PutUint32_def drop_bit_eq_div)

section \<open>Building the live-view URI\<close>

text \<open>
  C9. Build-live-view-URI selects the template by the device-family tag: \<open>camera\<close>
  gives the \<open>/api/v5 ... /cameras/ ...\<close> template, \<open>owl\<close> and \<open>hawk\<close> the
  \<open>/api/v2 ... /owls/ ...\<close> template, \<open>doorbell\<close> and \<open>lotus\<close> the
  \<open>/api/v2 ... /doorbells/ ...\<close> template, each with the region, the account id, the
  network id and the camera id substituted in that order; every other tag fails with
  the unknown-device error.
\<close>

theorem CreateLiveViewURI_templates:
  "(DeviceType cc = ''camera'' \<longrightarrow>
      CreateLiveViewURI cc =
        Inr (''https://rest-'' @ Region cc @ ''.immedia-semi.com/api/v5/accounts/''
             @ format_int (sint (AccountId cc)) @ ''/networks/''
             @ format_int (sint (NetworkId cc)) @ ''/cameras/''
             @ format_int (sint (CameraId cc)) @ ''/liveview''))
   \<and> (DeviceType cc = ''owl'' \<or> DeviceType cc = ''hawk'' \<longrightarrow>
      CreateLiveViewURI cc =
        Inr (''https://rest-'' @ Region cc @ ''.immedia-semi.com/api/v2/accounts/''
             @ format_int (sint (AccountId cc)) @ ''/networks/''
             @ format_int (sint (NetworkId cc)) @ ''/owls/''
             @ format_int (sint (CameraId cc)) @ ''/liveview''))
   \<and> (DeviceType cc = ''doorbell'' \<or> DeviceType cc = ''lotus'' \<longrightarrow>
      CreateLiveViewURI cc =
        Inr (''https://rest-'' @ Region cc @ ''.immedia-semi.com/api/v2/accounts/''
             @ format_int (sint (AccountId cc)) @ ''/networks/''
             @ format_int (sint (NetworkId cc)) @ ''/doorbells/''
             @ format_int (sint (CameraId cc)) @ ''/liveview''))
   \<and> (DeviceType cc \<notin> {''camera'', ''owl'', ''hawk'', ''doorbell'', ''lotus''} \<longrightarrow>
      CreateLiveViewURI cc = Inl (UnknownDeviceType (DeviceType cc)))"
  by (simp add: CreateLiveViewURI_def BASE_URL_def)

theorem CreateLiveViewURI_templates_witness:
  "DeviceType (example_cc\<lparr>DeviceType := ''camera''\<rparr>) = ''camera''
   \<and> CreateLiveViewURI (example_cc\<lparr>DeviceType := ''camera''\<rparr>) =
       Inr ''https://rest-u011.immedia-semi.com/api/v5/accounts/12345/networks/67890/cameras/11111/liveview''
   \<and> DeviceType example_cc = ''owl''
   \<and> CreateLiveViewURI example_cc =
       Inr ''https://rest-u011.immedia-semi.com/api/v2/accounts/12345/networks/67890/owls/11111/liveview''
   \<and> DeviceType (example_cc\<lparr>DeviceType := ''lotus''\<rparr>) = ''lotus''
   \<and> CreateLiveViewURI (example_cc\<lparr>DeviceType := ''lotus''\<rparr>) =
       Inr ''https://rest-u011.immedia-semi.com/api/v2/accounts/12345/networks/67890/doorbells/11111/liveview''
   \<and> DeviceType (example_cc\<lparr>DeviceType := ''Owl''\<rparr>)
        \<notin> {''camera'', ''owl'', ''hawk'', ''doorbell'', ''lotus''}
   \<and> CreateLiveViewURI (example_cc\<lparr>DeviceType := ''Owl''\<rparr>) = Inl (UnknownDeviceType ''Owl'')"
  using CreateLiveViewURI_templates [of "example_cc\<lparr>DeviceType := ''camera''\<rparr>"]
    CreateLiveViewURI_templates [of example_cc]
    CreateLiveViewURI_templates [of "example_cc\<lparr>DeviceType := ''lotus''\<rparr>"]
    CreateLiveViewURI_templates [of "example_cc\<lparr>DeviceType := ''Owl''\<rparr>"]
  by (simp add: example_cc_def format_example_ids)

section \<open>The client's guards\<close>

text \<open>
  C7. Connect on a client that is already connected returns the already-connected
  error and does nothing else: the world is unchanged (no request is sent, no activity
  started, no context created) and so is the client (command id, scope, connected flag).
\<close>

theorem Connect_when_connected:
  "connected (state c) \<Longrightarrow> Connect e c w = (Returns (Some AlreadyConnected), c, w)"
  by (simp add: Connect_def)

theorem Connect_when_connected_witness:
  "connected (state (NewClient ''u011'' ''token'' ''owl'' 1 2 3
      \<lparr>state := \<lparr>connected = True, lvCommandId = 7, streamContext = Some 0, streamCancel = Some 0\<rparr>\<rparr>))
   \<and> Connect (example_env ok_response \<lparr>CommandId = 8, PollingInterval = 5, Server = []\<rparr>
                 \<lparr>Code = 902, status_code = 200, Message = [], Complete = False\<rparr>)
        (NewClient ''u011'' ''token'' ''owl'' 1 2 3
          \<lparr>state := \<lparr>connected = True, lvCommandId = 7, streamContext = Some 0, streamCancel = Some 0\<rparr>\<rparr>)
        world0
      = (Returns (Some AlreadyConnected),
         NewClient ''u011'' ''token'' ''owl'' 1 2 3
          \<lparr>state := \<lparr>connected = True, lvCommandId = 7, streamContext = Some 0, streamCancel = Some 0\<rparr>\<rparr>,
         world0)
   \<and> requests world0 = []"
  using Connect_when_connected
    [of "NewClient ''u011'' ''token'' ''owl'' 1 2 3
          \<lparr>state := \<lparr>connected = True, lvCommandId = 7, streamContext = Some 0, streamCancel = Some 0\<rparr>\<rparr>"
        "example_env ok_response \<lparr>CommandId = 8, PollingInterval = 5, Server = []\<rparr>
                 \<lparr>Code = 902, status_code = 200, Message = [], Complete = False\<rparr>"
        world0]
  by (simp add: world0_def)

text \<open>
  C8. Disconnect on a client that is not connected returns no error and does nothing:
  the world is unchanged (no stop request is sent, nothing is cancelled or logged) and
  so is the client.
\<close>

theorem Disconnect_when_disconnected:
  "\<not> connected (state c) \<Longrightarrow> Disconnect e c w = (Returns None, c, w)"
  by (simp add: Disconnect_def)

theorem Disconnect_when_disconnected_witness:
  "\<not> connected (state (NewClient ''u011'' ''token'' ''owl'' 1 2 3))
   \<and> Disconnect (example_env ok_response \<lparr>CommandId = 8, PollingInterval = 5, Server = []\<rparr>
                 \<lparr>Code = 902, status_code = 200, Message = [], Complete = False\<rparr>)
        (NewClient ''u011'' ''token'' ''owl'' 1 2 3) world0
      = (Returns None, NewClient ''u011'' ''token'' ''owl'' 1 2 3, world0)
   \<and> requests world0 = []"
  using Disconnect_when_disconnected
    [of "NewClient ''u011'' ''token'' ''owl'' 1 2 3"
        "example_env ok_response \<lparr>CommandId = 8, PollingInterval = 5, Server = []\<rparr>
                 \<lparr>Code = 902, status_code = 200, Message = [], Complete = False\<rparr>"
        world0]
  by (simp add: NewClient_def world0_def)

text \<open>A Disconnect that returns always leaves the client disconnected.\<close>

lemma Disconnect_leaves_disconnected:
  "Disconnect e c w = (Returns r, c', w') \<Longrightarrow> \<not> connected (state c') \<and> r = None"
  by (auto simp: Disconnect_def Let_def split: if_splits option.splits prod.splits outcome.splits)

section \<open>Stopping a session\<close>

lemma StopCommand_answered:
  assumes "NewRequest_error e ''POST'' (RequestURL (stop_request cc commandId)) = None"
    and "client_Do e (length (requests w)) (stop_request cc commandId) = (Some r, err)"
  shows "fst (StopCommand e cc commandId w) =
     (if StatusCode r \<noteq> 200 \<or> err \<noteq> None
      then Returns (Some (StopHttpStatus (StatusCode r)))
      else case Body r of
             Inl x \<Rightarrow> Returns (Some x)
           | Inr body \<Rightarrow>
              (case Unmarshal_CommandResponse e body of
                 Inl x \<Rightarrow> Returns (Some x)
               | Inr result \<Rightarrow>
                   if Code result \<noteq> 902
                   then Returns (Some (StopApiCode (Code result) (Message result)))
                   else Returns None))"
  using assms
  by (simp add: StopCommand_def CreatePollingURI_def NewRequest_def stop_request_def Do_def
      SetRequestHeaders_def split: sum.splits)

lemma StopCommand_success_only_if:
  assumes "fst (StopCommand e cc commandId w) = Returns None"
  shows "\<exists>r body result.
           client_Do e (length (requests w)) (stop_request cc commandId) = (Some r, None)
           \<and> StatusCode r = 200 \<and> Body r = Inr body
           \<and> Unmarshal_CommandResponse e body = Inr result \<and> Code result = 902"
  using assms
  by (auto simp: StopCommand_def CreatePollingURI_def NewRequest_def stop_request_def Do_def
      SetRequestHeaders_def Let_def split: sum.splits option.splits if_splits prod.splits)

text \<open>
  C4, as the code has it. When the stop request is answered (a response and no
  transport error), stop-session succeeds exactly when the HTTP status is 200 and the
  body decodes to a Command Status whose code is 902. With status 200 and any other
  decoded code it returns the stop error that carries the vendor's code and message.
  With any other HTTP status it returns the stop error that carries the HTTP status,
  whatever the body holds.
\<close>

theorem StopCommand_success_iff:
  assumes "NewRequest_error e ''POST'' (RequestURL (stop_request cc commandId)) = None"
    and "client_Do e (length (requests w)) (stop_request cc commandId) = (Some r, None)"
  shows "((fst (StopCommand e cc commandId w) = Returns None)
            = (StatusCode r = 200
               \<and> (\<exists>body result. Body r = Inr body
                     \<and> Unmarshal_CommandResponse e body = Inr result \<and> Code result = 902)))
       \<and> (StatusCode r = 200 \<and> Body r = Inr body
            \<and> Unmarshal_CommandResponse e body = Inr result \<and> Code result \<noteq> 902 \<longrightarrow>
            fst (StopCommand e cc commandId w)
              = Returns (Some (StopApiCode (Code result) (Message result))))
       \<and> (StatusCode r \<noteq> 200 \<longrightarrow>
            fst (StopCommand e cc commandId w) = Returns (Some (StopHttpStatus (StatusCode r))))"
  using StopCommand_answered [OF assms(1) assms(2)]
  by (auto split: sum.splits)

theorem StopCommand_success_iff_witness:
  "fst (StopCommand
         (example_env ok_response \<lparr>CommandId = 7, PollingInterval = 5, Server = []\<rparr>
            \<lparr>Code = 902, status_code = 200, Message = ''ok'', Complete = True\<rparr>)
         example_cc 7 world0) = Returns None
   \<and> fst (StopCommand
         (example_env ok_response \<lparr>CommandId = 7, PollingInterval = 5, Server = []\<rparr>
            \<lparr>Code = 900, status_code = 200, Message = ''busy'', Complete = False\<rparr>)
         example_cc 7 world0) = Returns (Some (StopApiCode 900 ''busy''))
   \<and> fst (StopCommand
         (example_env server_error_response \<lparr>CommandId = 7, PollingInterval = 5, Server = []\<rparr>
            \<lparr>Code = 902, status_code = 500, Message = ''ok'', Complete = True\<rparr>)
         example_cc 7 world0) = Returns (Some (StopHttpStatus 500))"
proof -
  let ?lv = "\<lparr>CommandId = 7, PollingInterval = 5, Server = []\<rparr>"
  let ?done = "\<lparr>Code = 902, status_code = 200, Message = ''ok'', Complete = True\<rparr>"
  let ?busy = "\<lparr>Code = 900, status_code = 200, Message = ''busy'', Complete = False\<rparr>"
  let ?done500 = "\<lparr>Code = 902, status_code = 500, Message = ''ok'', Complete = True\<rparr>"
  let ?r = "\<lparr>StatusCode = 200, Body = Inr ''{}''\<rparr>"
  let ?r500 = "\<lparr>StatusCode = 500, Body = Inr ''{}''\<rparr>"
  have built: "\<And>a lv cmd. NewRequest_error (example_env a lv cmd) ''POST''
      (RequestURL (stop_request example_cc 7)) = None"
    by (simp add: example_env_sel)
  have ok: "\<And>lv cmd. client_Do (example_env ok_response lv cmd) (length (requests world0))
      (stop_request example_cc 7) = (Some ?r, None)"
    by (simp add: example_env_sel ok_response_def)
  have bad: "\<And>lv cmd. client_Do (example_env server_error_response lv cmd)
      (length (requests world0)) (stop_request example_cc 7) = (Some ?r500, None)"
    by (simp add: example_env_sel server_error_response_def)
  have a: "fst (StopCommand (example_env ok_response ?lv ?done) example_cc 7 world0) = Returns None"
    using StopCommand_success_iff [OF built ok, of ?lv ?done, THEN conjunct1]
    by (simp add: example_env_sel)
  have b: "fst (StopCommand (example_env ok_response ?lv ?busy) example_cc 7 world0)
      = Returns (Some (StopApiCode 900 ''busy''))"
    using StopCommand_success_iff [OF built ok, of ?lv ?busy "''{}''" ?busy,
        THEN conjunct2, THEN conjunct1]
    by (simp add: example_env_sel)
  have c: "fst (StopCommand (example_env server_error_response ?lv ?done500) example_cc 7 world0)
      = Returns (Some (StopHttpStatus 500))"
    using StopCommand_success_iff [OF built bad, of ?lv ?done500, THEN conjunct2, THEN conjunct2]
    by simp
  from a b c show ?thesis by simp
qed

text \<open>
  An answered response with HTTP status 500 whose body decodes to code 900 and message
  "busy": the error returned carries the HTTP status, not the vendor's code and message.
\<close>

theorem StopCommand_counterexample:
  "fst (StopCommand
         (example_env server_error_response \<lparr>CommandId = 7, PollingInterval = 5, Server = []\<rparr>
            \<lparr>Code = 900, status_code = 500, Message = ''busy'', Complete = False\<rparr>)
         example_cc 7 world0) = Returns (Some (StopHttpStatus 500))
   \<and> StopHttpStatus 500 \<noteq> StopApiCode 900 ''busy''
   \<and> fst server_error_response = Some \<lparr>StatusCode = 500, Body = Inr ''{}''\<rparr>
   \<and> snd server_error_response = None"
  by (simp add: StopCommand_def CreatePollingURI_def NewRequest_def Do_def example_env_sel
      server_error_response_def)

section \<open>Transport errors\<close>

text \<open>
  C2. A transport error is \<open>client.Do\<close> returning no response and an error. The three
  operations then read \<open>resp.StatusCode\<close> of the nil response before they look at the
  error: start, poll (at its first tick) and stop end in a nil pointer dereference, not
  in their error value.
\<close>

theorem transport_error_panics:
  assumes "\<And>method u. NewRequest_error e method u = None"
    and "\<And>n req. client_Do e n req = (None, Some err)"
    and "CreateLiveViewURI cc = Inr url"
    and "0 < sint (pollInterval * Second)"
  shows "fst (InitiateLiveView e cc w) = Panics NilPointerDereference
       \<and> fst (PollCommand e cc commandId pollInterval (Tick # evs) w)
            = Some (Panics NilPointerDereference)
       \<and> fst (StopCommand e cc commandId w) = Panics NilPointerDereference"
  using assms
  by (simp add: InitiateLiveView_def PollCommand_def StopCommand_def CreatePollingURI_def
      NewRequest_def Do_def)

theorem transport_error_panics_witness:
  "fst transport_failure = None
   \<and> snd transport_failure = Some (External ''dial tcp: connection refused'')
   \<and> fst (InitiateLiveView
         (example_env transport_failure \<lparr>CommandId = 7, PollingInterval = 5, Server = []\<rparr>
            \<lparr>Code = 902, status_code = 200, Message = [], Complete = False\<rparr>)
         example_cc world0) = Panics NilPointerDereference
   \<and> fst (PollCommand
         (example_env transport_failure \<lparr>CommandId = 7, PollingInterval = 5, Server = []\<rparr>
            \<lparr>Code = 902, status_code = 200, Message = [], Complete = False\<rparr>)
         example_cc 7 5 [Tick] world0) = Some (Panics NilPointerDereference)
   \<and> fst (StopCommand
         (example_env transport_failure \<lparr>CommandId = 7, PollingInterval = 5, Server = []\<rparr>
            \<lparr>Code = 902, status_code = 200, Message = [], Complete = False\<rparr>)
         example_cc 7 world0) = Panics NilPointerDereference"
proof -
  let ?e = "example_env transport_failure \<lparr>CommandId = 7, PollingInterval = 5, Server = []\<rparr>
            \<lparr>Code = 902, status_code = 200, Message = [], Complete = False\<rparr>"
  have h1: "\<And>method u. NewRequest_error ?e method u = None"
    by (simp add: example_env_sel)
  have h2: "\<And>n req. client_Do ?e n req = (None, Some (External ''dial tcp: connection refused''))"
    by (simp add: example_env_sel transport_failure_def)
  have h3: "CreateLiveViewURI example_cc
      = Inr ''https://rest-u011.immedia-semi.com/api/v2/accounts/12345/networks/67890/owls/11111/liveview''"
    by (simp add: CreateLiveViewURI_def BASE_URL_def example_cc_def format_example_ids)
  have h4: "0 < sint ((5 :: go_int) * Second)"
    by (simp add: Second_def)
  show ?thesis
    using transport_error_panics [of ?e "External ''dial tcp: connection refused''" example_cc _ 5
        world0 7 "[]", OF h1 h2 h3 h4]
    by (simp add: transport_failure_def)
qed

section \<open>Read deadlines of the stream\<close>

lemma replicate_case:
  "(case n of 0 \<Rightarrow> [] | Suc k \<Rightarrow> x # replicate k x) = replicate n x"
  by (cases n) simp_all

lemma stream_loop_deadlines:
  "\<exists>n. deadlines (snd (stream_loop its rt t))
        = deadlines t @ (case n of 0 \<Rightarrow> [] | Suc k \<Rightarrow> rt # replicate k (2 * Second))"
proof (induction its arbitrary: rt t)
  case Nil
  have "deadlines (snd (stream_loop [] rt t))
        = deadlines t @ (case 0::nat of 0 \<Rightarrow> [] | Suc k \<Rightarrow> rt # replicate k (2 * Second))"
    by simp
  then show ?case by blast
next
  case (Cons it its)
  obtain d w p where t: "t = \<lparr>deadlines = d, written = w, pings = p\<rparr>"
    by (cases t) simp
  let ?stop = "deadlines (snd (stream_loop (it # its) rt t)) = d"
  let ?one = "deadlines (snd (stream_loop (it # its) rt t)) = d @ [rt]"
  let ?more = "\<exists>w' p'. stream_loop (it # its) rt t
      = stream_loop its (2 * Second) \<lparr>deadlines = d @ [rt], written = w', pings = p'\<rparr>"
  have branches: "?stop \<or> ?one \<or> ?more"
    unfolding t by (simp split: option.splits sum.splits add: Let_def) blast
  then consider ?stop | ?one | ?more by blast
  then show ?case
  proof cases
    case 1
    then have "deadlines (snd (stream_loop (it # its) rt t))
      = deadlines t @ (case 0::nat of 0 \<Rightarrow> [] | Suc k \<Rightarrow> rt # replicate k (2 * Second))"
      by (simp add: t)
    then show ?thesis by blast
  next
    case 2
    then have "deadlines (snd (stream_loop (it # its) rt t))
      = deadlines t @ (case Suc 0 of 0 \<Rightarrow> [] | Suc k \<Rightarrow> rt # replicate k (2 * Second))"
      by (simp add: t)
    then show ?thesis by blast
  next
    case 3
    then obtain w' p' where step: "stream_loop (it # its) rt t
      = stream_loop its (2 * Second) \<lparr>deadlines = d @ [rt], written = w', pings = p'\<rparr>"
      by blast
    from Cons.IH [of "2 * Second" "\<lparr>deadlines = d @ [rt], written = w', pings = p'\<rparr>"]
    obtain n where
      "deadlines (snd (stream_loop its (2 * Second)
                        \<lparr>deadlines = d @ [rt], written = w', pings = p'\<rparr>))
        = (d @ [rt]) @ (case n of 0 \<Rightarrow> [] | Suc k \<Rightarrow> 2 * Second # replicate k (2 * Second))"
      by auto
    then have "deadlines (snd (stream_loop (it # its) rt t))
        = (d @ [rt]) @ replicate n (2 * Second)"
      by (simp only: step replicate_case)
    then have "deadlines (snd (stream_loop (it # its) rt t))
        = deadlines t @ (case Suc n of 0 \<Rightarrow> [] | Suc k \<Rightarrow> rt # replicate k (2 * Second))"
      by (simp only: t) simp
    then show ?thesis by blast
  qed
qed

text \<open>
  C6. In every run of Stream, however far it got, the timeouts given to the read
  deadlines are: none (the stream ended before any read), or the configured
  \<open>ReadTimeout\<close> for the first read followed by two seconds for each later read.
\<close>

theorem Stream_read_deadlines:
  "deadlines (snd (Stream se cfg host port)) = []
   \<or> deadlines (snd (Stream se cfg host port))
       = ReadTimeout cfg
         # replicate (length (deadlines (snd (Stream se cfg host port))) - 1) (2 * Second)"
proof -
  let ?t0 = "\<lparr>deadlines = [], written = [], pings = 0\<rparr>"
  have start: "deadlines (snd (Stream se cfg host port)) = []
      \<or> Stream se cfg host port = stream_loop (iterations se) (ReadTimeout cfg) ?t0"
    by (simp add: Stream_def Let_def split: option.splits)
  obtain n where n: "deadlines (snd (stream_loop (iterations se) (ReadTimeout cfg) ?t0))
      = deadlines ?t0 @ (case n of 0 \<Rightarrow> [] | Suc k \<Rightarrow> ReadTimeout cfg # replicate k (2 * Second))"
    using stream_loop_deadlines by blast
  have "deadlines (snd (stream_loop (iterations se) (ReadTimeout cfg) ?t0)) = []
      \<or> deadlines (snd (stream_loop (iterations se) (ReadTimeout cfg) ?t0))
       = ReadTimeout cfg
         # replicate (length (deadlines (snd (stream_loop (iterations se) (ReadTimeout cfg) ?t0))) - 1)
             (2 * Second)"
    unfolding n by (cases n) simp_all
  with start show ?thesis by auto
qed

lemma two_seconds: "2 * Second = (2000000000 :: Duration)"
  by (simp add: Second_def)

theorem Stream_read_deadlines_witness:
  "Stream
     \<lparr>dial = None, on_connect = None,
      iterations =
        [\<lparr>ctx_done = False, set_deadline = None, read_result = Inr [1, 2, 3],
          write_result = None, ping_due = False, on_ping = None\<rparr>,
         \<lparr>ctx_done = False, set_deadline = None, read_result = Inr [4],
          write_result = None, ping_due = True, on_ping = None\<rparr>,
         \<lparr>ctx_done = False, set_deadline = None, read_result = Inr [5, 6],
          write_result = None, ping_due = False, on_ping = None\<rparr>,
         \<lparr>ctx_done = True, set_deadline = None, read_result = Inr [],
          write_result = None, ping_due = False, on_ping = None\<rparr>]\<rparr>
     \<lparr>Ctx = 0, ReadTimeout = 15 * Second, PingInterval = 1 * Second\<rparr> ''host'' ''443''
   = (Some None,
      \<lparr>deadlines = [15000000000, 2000000000, 2000000000],
       written = [[1, 2, 3], [4], [5, 6]], pings = 1\<rparr>)"
  using Stream_read_deadlines
    [of "\<lparr>dial = None, on_connect = None,
      iterations =
        [\<lparr>ctx_done = False, set_deadline = None, read_result = Inr [1, 2, 3],
          write_result = None, ping_due = False, on_ping = None\<rparr>,
         \<lparr>ctx_done = False, set_deadline = None, read_result = Inr [4],
          write_result = None, ping_due = True, on_ping = None\<rparr>,
         \<lparr>ctx_done = False, set_deadline = None, read_result = Inr [5, 6],
          write_result = None, ping_due = False, on_ping = None\<rparr>,
         \<lparr>ctx_done = True, set_deadline = None, read_result = Inr [],
          write_result = None, ping_due = False, on_ping = None\<rparr>]\<rparr>"
     "\<lparr>Ctx = 0, ReadTimeout = 15 * Second, PingInterval = 1 * Second\<rparr>" "''host''" "''443''"]
  by (simp add: Stream_def Second_def)

section \<open>Parsing the connection string\<close>

lemma foldl_digits_nonneg:
  "list_all is_digit ds \<Longrightarrow> 0 \<le> a
     \<Longrightarrow> 0 \<le> foldl (\<lambda>n c. n * 10 + (of_char c - 48)) (a::int) ds"
  by (induction ds arbitrary: a) (simp_all add: is_digit_def)

lemma decimal_value_nonneg: "list_all is_digit ds \<Longrightarrow> 0 \<le> decimal_value ds"
  by (simp add: decimal_value_def foldl_digits_nonneg)

text \<open>
  \<open>strconv.Atoi\<close> in terms of the integer the string denotes: a string that is not a
  decimal integer is a syntax error, an integer outside the 64-bit range is a range
  error, and any other integer is returned.
\<close>

lemma Atoi_decimal_integer:
  "Atoi s =
    (case decimal_integer s of
       None \<Rightarrow> (0, Some (External ''strconv.Atoi: invalid syntax''))
     | Some n \<Rightarrow>
         if n < - (2 ^ 63)
           then (word_of_int (- (2 ^ 63)), Some (External ''strconv.Atoi: value out of range''))
         else if 2 ^ 63 \<le> n
           then (word_of_int (2 ^ 63 - 1), Some (External ''strconv.Atoi: value out of range''))
         else (word_of_int n, None))"
proof -
  define ds where "ds = (if s \<noteq> [] \<and> (hd s = CHR ''-'' \<or> hd s = CHR ''+'') then tl s else s)"
  have e: "s = [] \<Longrightarrow> ds = []" by (simp add: ds_def)
  show ?thesis
  proof (cases "ds \<noteq> [] \<and> list_all is_digit ds")
    case False
    then show ?thesis
      unfolding Atoi_def decimal_integer_def Let_def ds_def [symmetric] by auto
  next
    case True
    then have nn: "0 \<le> decimal_value ds" by (simp add: decimal_value_nonneg)
    show ?thesis
    proof (cases "s \<noteq> [] \<and> hd s = CHR ''-''")
      case neg: True
      with True nn show ?thesis
        unfolding Atoi_def decimal_integer_def Let_def ds_def [symmetric] by auto
    next
      case pos: False
      with True nn e show ?thesis
        unfolding Atoi_def decimal_integer_def Let_def ds_def [symmetric] by auto
    qed
  qed
qed

lemma sint_word_of_int_64:
  "- (2 ^ 63) \<le> n \<Longrightarrow> n < 2 ^ 63 \<Longrightarrow> sint (word_of_int n :: go_int) = n"
  by (simp add: sint_sbintrunc' signed_take_bit_int_eq_self)

lemma word_of_int_64_nonzero:
  assumes "- (2 ^ 63) \<le> n" "n < 2 ^ 63" "n \<noteq> 0"
  shows "(word_of_int n :: go_int) \<noteq> 0"
proof
  assume "(word_of_int n :: go_int) = 0"
  then have "sint (word_of_int n :: go_int) = 0" by simp
  with assms show False by (simp add: sint_word_of_int_64)
qed

lemma decimal_integer_examples:
  "decimal_integer ''55'' = Some 55"
  "decimal_integer ''-55'' = Some (- 55)"
  "decimal_integer ''9223372036854775808'' = Some 9223372036854775808"
  "decimal_integer [] = None"
  by (simp_all add: decimal_integer_def decimal_value_def is_digit_def)

lemma ParseConnectionString_accepts:
  assumes a: "parse server = Inr u \<and> Hostname u \<noteq> [] \<and> Port u = ''443''
      \<and> last (Split (Path u) (CHR ''/'')) = connectionId @ CHR ''_'' # suffix
      \<and> connectionId \<noteq> [] \<and> CHR ''_'' \<notin> set connectionId
      \<and> Atoi (Get (Query u) ''client_id'') = (clientId, None) \<and> clientId \<noteq> 0"
  shows "ParseConnectionString parse server = Inr (Hostname u, ''443'', clientId, connectionId)"
proof -
  from a have seg: "Split (connectionId @ CHR ''_'' # suffix) (CHR ''_'')
      = connectionId # Split suffix (CHR ''_'')"
    by (simp add: Split_prefix)
  have len: "\<not> length (connectionId # Split suffix (CHR ''_'')) < 2"
    using Split_nonempty [of suffix "CHR ''_''"] by (cases "Split suffix (CHR ''_'')") simp_all
  show ?thesis
    using a len by (simp add: ParseConnectionString_def Let_def Split_nonempty seg)
qed

lemma ParseConnectionString_accepts_decimal:
  assumes a: "parse server = Inr u \<and> Hostname u \<noteq> [] \<and> Port u = ''443''
      \<and> last (Split (Path u) (CHR ''/'')) = connectionId @ CHR ''_'' # suffix
      \<and> connectionId \<noteq> [] \<and> CHR ''_'' \<notin> set connectionId
      \<and> decimal_integer (Get (Query u) ''client_id'') = Some n
      \<and> - (2 ^ 63) \<le> n \<and> n < 2 ^ 63 \<and> n \<noteq> 0"
  shows "ParseConnectionString parse server
           = Inr (Hostname u, ''443'', word_of_int n, connectionId)
         \<and> sint (word_of_int n :: go_int) = n"
proof -
  from a have at: "Atoi (Get (Query u) ''client_id'') = (word_of_int n, None)"
    by (simp add: Atoi_decimal_integer)
  from a have nz: "(word_of_int n :: go_int) \<noteq> 0"
    by (simp add: word_of_int_64_nonzero)
  from a have s: "sint (word_of_int n :: go_int) = n"
    by (simp add: sint_word_of_int_64)
  from a at nz have "ParseConnectionString parse server
           = Inr (Hostname u, ''443'', word_of_int n, connectionId)"
    by (intro ParseConnectionString_accepts) simp
  with s show ?thesis by simp
qed

lemma ParseConnectionString_result:
  assumes "ParseConnectionString parse server = Inr (h, p, c, i)"
  shows "c \<noteq> 0 \<and> p = ''443'' \<and> h \<noteq> [] \<and> i \<noteq> []"
proof -
  from assms obtain u where u: "parse server = Inr u"
    by (cases "parse server") (simp_all add: ParseConnectionString_def)
  obtain n e where at: "Atoi (Get (Query u) ''client_id'') = (n, e)"
    by (cases "Atoi (Get (Query u) ''client_id'')")
  from assms show ?thesis
    by (simp add: ParseConnectionString_def u at Let_def split: if_splits)
qed

lemma ParseConnectionString_rejects:
  assumes u: "parse server = Inr u"
    and b: "Port u \<noteq> ''443'' \<or> Query u ''client_id'' = None
            \<or> decimal_integer (Get (Query u) ''client_id'') = None
            \<or> (decimal_integer (Get (Query u) ''client_id'') = Some n
                \<and> (n = 0 \<or> n < - (2 ^ 63) \<or> 2 ^ 63 \<le> n))
            \<or> last (Split (Path u) (CHR ''/'')) = CHR ''_'' # suffix"
  shows "ParseConnectionString parse server
            \<in> {Inl InvalidHost, Inl (UnexpectedPort (Port u)), Inl InvalidConnectionID,
               Inl InvalidClientID}"
proof -
  obtain k e where at: "Atoi (Get (Query u) ''client_id'') = (k, e)"
    by (cases "Atoi (Get (Query u) ''client_id'')")
  have missing: "Query u ''client_id'' = None \<Longrightarrow> k = 0"
    using at by (simp add: Get_def Atoi_empty)
  have not_a_number: "decimal_integer (Get (Query u) ''client_id'') = None \<Longrightarrow> k = 0"
    using at by (simp add: Atoi_decimal_integer)
  have bad_number: "decimal_integer (Get (Query u) ''client_id'') = Some n
      \<Longrightarrow> n = 0 \<or> n < - (2 ^ 63) \<or> 2 ^ 63 \<le> n \<Longrightarrow> k = 0 \<or> e \<noteq> None"
    using at by (auto simp: Atoi_decimal_integer split: if_splits)
  have empty_id: "last (Split (Path u) (CHR ''/'')) = CHR ''_'' # suffix
      \<Longrightarrow> hd (Split (last (Split (Path u) (CHR ''/''))) (CHR ''_'')) = []"
    by simp
  from b consider "Port u \<noteq> ''443''" | "k = 0" | "e \<noteq> None"
    | "hd (Split (last (Split (Path u) (CHR ''/''))) (CHR ''_'')) = []"
    using missing not_a_number bad_number empty_id by blast
  then show ?thesis
  proof cases
    case 1
    then show ?thesis by (simp add: ParseConnectionString_def u)
  next
    case 2
    then show ?thesis by (simp add: ParseConnectionString_def u at Let_def Split_nonempty)
  next
    case 3
    then show ?thesis by (simp add: ParseConnectionString_def u at Let_def Split_nonempty)
  next
    case 4
    then show ?thesis by (simp add: ParseConnectionString_def u at Let_def Split_nonempty)
  qed
qed

text \<open>
  C3, as the code has it. For a connection string that \<open>url.Parse\<close> accepts with a
  non-empty host, port 443, a last path segment \<open>connectionId_suffix\<close> whose
  connection id is non-empty (and is the part before the first separator), and a
  \<open>client_id\<close> that is a decimal integer other than zero within the range of a 64-bit
  \<open>int\<close>, the result is host, "443", that client id and that connection id. On success
  the client id is never zero (it can be negative), the port is "443", and host and
  connection id are non-empty. A port other than 443, a missing \<open>client_id\<close>, a
  \<open>client_id\<close> that is not a decimal integer, is zero or is outside the 64-bit range,
  or an empty connection id makes it fail with one of the invalid-connection-string
  errors.
\<close>

theorem ParseConnectionString_nonzero_client_id:
  "(parse server = Inr u \<and> Hostname u \<noteq> [] \<and> Port u = ''443''
      \<and> last (Split (Path u) (CHR ''/'')) = connectionId @ CHR ''_'' # suffix
      \<and> connectionId \<noteq> [] \<and> CHR ''_'' \<notin> set connectionId
      \<and> decimal_integer (Get (Query u) ''client_id'') = Some n
      \<and> - (2 ^ 63) \<le> n \<and> n < 2 ^ 63 \<and> n \<noteq> 0
    \<longrightarrow> ParseConnectionString parse server
          = Inr (Hostname u, ''443'', word_of_int n, connectionId)
        \<and> sint (word_of_int n :: go_int) = n)
   \<and> (ParseConnectionString parse server = Inr (h, p, c, i)
        \<longrightarrow> c \<noteq> 0 \<and> p = ''443'' \<and> h \<noteq> [] \<and> i \<noteq> [])
   \<and> (parse server = Inr u
        \<and> (Port u \<noteq> ''443'' \<or> Query u ''client_id'' = None
            \<or> decimal_integer (Get (Query u) ''client_id'') = None
            \<or> (decimal_integer (Get (Query u) ''client_id'') = Some m
                \<and> (m = 0 \<or> m < - (2 ^ 63) \<or> 2 ^ 63 \<le> m))
            \<or> last (Split (Path u) (CHR ''/'')) = CHR ''_'' # suffix)
      \<longrightarrow> ParseConnectionString parse server
            \<in> {Inl InvalidHost, Inl (UnexpectedPort (Port u)), Inl InvalidConnectionID,
               Inl InvalidClientID})"
  using ParseConnectionString_accepts_decimal [of parse server u connectionId suffix n]
    ParseConnectionString_result [of parse server h p c i]
    ParseConnectionString_rejects [of parse server u m suffix]
  by blast

theorem ParseConnectionString_nonzero_client_id_witness:
  "ParseConnectionString example_url_Parse ''https://host:443/path/ABC_123?client_id=55''
     = Inr (''host'', ''443'', 55, ''ABC'')
   \<and> ParseConnectionString example_url_Parse ''https://host:80/path/ABC_123?client_id=55''
     \<in> {Inl InvalidHost, Inl (UnexpectedPort ''80''), Inl InvalidConnectionID,
         Inl InvalidClientID}"
proof -
  let ?u = "\<lparr>Hostname = ''host'', Port = ''443'', Path = ''/path/ABC_123'',
            Query = [''client_id'' \<mapsto> [''55'']]\<rparr>"
  let ?v = "\<lparr>Hostname = ''host'', Port = ''80'', Path = ''/path/ABC_123'',
            Query = [''client_id'' \<mapsto> [''55'']]\<rparr>"
  have h1: "example_url_Parse ''https://host:443/path/ABC_123?client_id=55'' = Inr ?u
      \<and> Hostname ?u \<noteq> [] \<and> Port ?u = ''443''
      \<and> last (Split (Path ?u) (CHR ''/'')) = ''ABC'' @ CHR ''_'' # ''123''
      \<and> ''ABC'' \<noteq> [] \<and> CHR ''_'' \<notin> set ''ABC''
      \<and> decimal_integer (Get (Query ?u) ''client_id'') = Some 55
      \<and> - (2 ^ 63) \<le> (55 :: int) \<and> (55 :: int) < 2 ^ 63 \<and> (55 :: int) \<noteq> 0"
    by (simp add: example_url_Parse_values Get_def decimal_integer_examples)
  have h2: "example_url_Parse ''https://host:80/path/ABC_123?client_id=55'' = Inr ?v
        \<and> (Port ?v \<noteq> ''443'' \<or> Query ?v ''client_id'' = None
            \<or> decimal_integer (Get (Query ?v) ''client_id'') = None
            \<or> (decimal_integer (Get (Query ?v) ''client_id'') = Some 0
                \<and> ((0 :: int) = 0 \<or> (0 :: int) < - (2 ^ 63) \<or> 2 ^ 63 \<le> (0 :: int)))
            \<or> last (Split (Path ?v) (CHR ''/'')) = CHR ''_'' # ''123'')"
    by (simp add: example_url_Parse_values)
  have r1: "ParseConnectionString example_url_Parse ''https://host:443/path/ABC_123?client_id=55''
      = Inr (Hostname ?u, ''443'', word_of_int 55, ''ABC'')
      \<and> sint (word_of_int 55 :: go_int) = 55"
    using ParseConnectionString_nonzero_client_id
      [of example_url_Parse "''https://host:443/path/ABC_123?client_id=55''" ?u
          "''ABC''" "''123''" 55, THEN conjunct1, THEN mp, OF h1] .
  have r2: "ParseConnectionString example_url_Parse ''https://host:80/path/ABC_123?client_id=55''
      \<in> {Inl InvalidHost, Inl (UnexpectedPort (Port ?v)), Inl InvalidConnectionID,
         Inl InvalidClientID}"
    using ParseConnectionString_nonzero_client_id
      [of example_url_Parse "''https://host:80/path/ABC_123?client_id=55''" ?v
          _ "''123''" _ _ _ _ _ 0, THEN conjunct2, THEN conjunct2, THEN mp, OF h2] .
  from r1 r2 show ?thesis by (simp only: URL.simps) simp
qed

text \<open>
  The claim as the specification words it fails three times: a negative \<open>client_id\<close>
  is accepted and returned, so the client id of a success need not be positive; a
  connection string with port 443, a good last segment and a positive \<open>client_id\<close> but
  an empty host is rejected; and so is one whose positive \<open>client_id\<close> does not fit a
  64-bit \<open>int\<close>.
\<close>

theorem ParseConnectionString_counterexample:
  "ParseConnectionString example_url_Parse ''https://host:443/path/ABC_123?client_id=-55''
     = Inr (''host'', ''443'', - 55, ''ABC'')
   \<and> sint (- 55 :: go_int) = - 55
   \<and> ParseConnectionString example_url_Parse ''https://:443/path/ABC_123?client_id=55''
     = Inl InvalidHost
   \<and> decimal_integer ''9223372036854775808'' = Some 9223372036854775808
   \<and> ParseConnectionString example_url_Parse
        ''https://host:443/path/ABC_123?client_id=9223372036854775808''
     = Inl InvalidClientID"
  by (simp add: ParseConnectionString_def example_url_Parse_values Get_def Atoi_m55
      Atoi_decimal_integer [of "''9223372036854775808''"] decimal_integer_examples)

section \<open>Connect failures\<close>

text \<open>
  When the start-session call returns an error, Connect returns it and leaves the
  client as it was; nothing is started.
\<close>

lemma Connect_start_failure:
  assumes "\<not> connected (state c)"
    and "InitiateLiveView e (credentials c) w = (Returns (Inl err), w1)"
  shows "Connect e c w = (Returns (Some (ConnectError err)), c, w1)"
  using assms by (simp add: Connect_def)

lemma InitiateLiveView_spawns_nothing:
  "spawned (snd (InitiateLiveView e cc w)) = spawned w
   \<and> cancelled (snd (InitiateLiveView e cc w)) = cancelled w"
  by (simp add: InitiateLiveView_def Do_def Let_def split: sum.splits option.splits prod.splits)

text \<open>
  C1. When the start-session call succeeds and the connection string of its answer does
  not parse, Connect returns the parse error, but it has already stored the command id,
  marked the client connected and started the poll activity on a context that nobody
  cancels: the client is not left Disconnected.
\<close>

theorem Connect_parse_failure_leaves_connected:
  assumes "\<not> connected (state c)"
    and "InitiateLiveView e (credentials c) w = (Returns (Inr resp), w1)"
    and "ParseConnectionString (url_Parse e) (Server resp) = Inl err"
  shows "Connect e c w =
    (Returns (Some (ConnectParseError err)),
     c\<lparr>state := \<lparr>connected = True, lvCommandId = CommandId resp,
                   streamContext = Some (next_ctx w1), streamCancel = Some (next_ctx w1)\<rparr>\<rparr>,
     w1\<lparr>next_ctx := next_ctx w1 + 1,
        spawned := spawned w1 @
          [PollActivity (next_ctx w1) (credentials c) (CommandId resp) (PollingInterval resp)]\<rparr>)"
  using assms by (simp add: Connect_def Let_def)

lemma InitiateLiveView_example:
  "fst (InitiateLiveView
     (example_env ok_response
        \<lparr>CommandId = 7, PollingInterval = 5,
         Server = ''https://host:80/path/ABC_123?client_id=55''\<rparr>
        \<lparr>Code = 902, status_code = 200, Message = [], Complete = False\<rparr>)
     example_cc world0)
   = Returns (Inr \<lparr>CommandId = 7, PollingInterval = 5,
                  Server = ''https://host:80/path/ABC_123?client_id=55''\<rparr>)"
  by (simp add: InitiateLiveView_def CreateLiveViewURI_def example_cc_def NewRequest_def
      Do_def example_env_sel ok_response_def)

lemma InitiateLiveView_world:
  "next_ctx (snd (InitiateLiveView e cc w)) = next_ctx w"
  by (simp add: InitiateLiveView_def Do_def Let_def split: sum.splits option.splits prod.splits)

theorem Connect_parse_failure_leaves_connected_witness:
  "fst (Connect
     (example_env ok_response
        \<lparr>CommandId = 7, PollingInterval = 5,
         Server = ''https://host:80/path/ABC_123?client_id=55''\<rparr>
        \<lparr>Code = 902, status_code = 200, Message = [], Complete = False\<rparr>)
     (NewClient ''u011'' ''your-api-token'' ''owl'' 12345 67890 11111) world0)
    = Returns (Some (ConnectParseError (UnexpectedPort ''80'')))
   \<and> IsConnected (fst (snd (Connect
     (example_env ok_response
        \<lparr>CommandId = 7, PollingInterval = 5,
         Server = ''https://host:80/path/ABC_123?client_id=55''\<rparr>
        \<lparr>Code = 902, status_code = 200, Message = [], Complete = False\<rparr>)
     (NewClient ''u011'' ''your-api-token'' ''owl'' 12345 67890 11111) world0)))
   \<and> lvCommandId (state (fst (snd (Connect
     (example_env ok_response
        \<lparr>CommandId = 7, PollingInterval = 5,
         Server = ''https://host:80/path/ABC_123?client_id=55''\<rparr>
        \<lparr>Code = 902, status_code = 200, Message = [], Complete = False\<rparr>)
     (NewClient ''u011'' ''your-api-token'' ''owl'' 12345 67890 11111) world0)))) = 7
   \<and> running (snd (snd (Connect
     (example_env ok_response
        \<lparr>CommandId = 7, PollingInterval = 5,
         Server = ''https://host:80/path/ABC_123?client_id=55''\<rparr>
        \<lparr>Code = 902, status_code = 200, Message = [], Complete = False\<rparr>)
     (NewClient ''u011'' ''your-api-token'' ''owl'' 12345 67890 11111) world0)))
     = [PollActivity 0 example_cc 7 5]"
proof -
  let ?lv = "\<lparr>CommandId = 7, PollingInterval = 5,
         Server = ''https://host:80/path/ABC_123?client_id=55''\<rparr>"
  let ?e = "example_env ok_response ?lv
        \<lparr>Code = 902, status_code = 200, Message = [], Complete = False\<rparr>"
  let ?c = "NewClient ''u011'' ''your-api-token'' ''owl'' 12345 67890 11111"
  have cc: "credentials ?c = example_cc"
    by (simp add: NewClient_def example_cc_def)
  have h1: "\<not> connected (state ?c)"
    by (simp add: NewClient_def)
  obtain w1 where h2: "InitiateLiveView ?e (credentials ?c) world0 = (Returns (Inr ?lv), w1)"
    using InitiateLiveView_example by (cases "InitiateLiveView ?e (credentials ?c) world0") (simp add: cc)
  have h3: "ParseConnectionString (url_Parse ?e) (Server ?lv) = Inl (UnexpectedPort ''80'')"
    by (simp add: example_env_sel ParseConnectionString_port80)
  have w1: "next_ctx w1 = 0" "spawned w1 = []" "cancelled w1 = []"
    using InitiateLiveView_world [of ?e "credentials ?c" world0]
      InitiateLiveView_spawns_nothing [of ?e "credentials ?c" world0]
    by (simp_all only: h2 snd_conv) (simp_all add: world0_def)
  show ?thesis
    unfolding Connect_parse_failure_leaves_connected [OF h1 h2 h3]
    by (simp add: IsConnected_def running_def w1 cc)
qed

end
